theory Spec2Isabelle
  imports Main
begin

section \<open>JavaScript values and promises\<close>

text \<open>
  The values that flow through \<^verbatim>\<open>src/index.mjs\<close>: the text of a file or of a bundle,
  \<^verbatim>\<open>undefined\<close> (the second argument of a Node callback that reports an error, the
  argument of \<^verbatim>\<open>resolve()\<close>, an option that was not given), and \<^verbatim>\<open>NaN\<close>, the
  value of \<^verbatim>\<open>+\<close> on two operands neither of which is a string.
\<close>

datatype jsval = JUndefined | JStr string | JNaN

fun js_toString :: "jsval \<Rightarrow> string" where
  "js_toString JUndefined = ''undefined''"
| "js_toString (JStr s) = s"
| "js_toString JNaN = ''NaN''"

text \<open>
  The operator \<^verbatim>\<open>+\<close>: string concatenation as soon as one operand is a string (the
  other one is converted by ToString), numeric addition otherwise, which on
  \<^verbatim>\<open>undefined\<close> and \<^verbatim>\<open>NaN\<close> is \<^verbatim>\<open>NaN\<close>.
\<close>

fun js_plus :: "jsval \<Rightarrow> jsval \<Rightarrow> jsval" where
  "js_plus (JStr x) b = JStr (x @ js_toString b)"
| "js_plus a (JStr y) = JStr (js_toString a @ y)"
| "js_plus a b = JNaN"

datatype errno = ENOENT | EACCES | EISDIR | EIO

text \<open>
  The errors a promise of the program is rejected with: the error of a file-system
  callback (with the path it is about), the \<^verbatim>\<open>err\<close> the bundler hands to the callback of
  \<^verbatim>\<open>compiler.run\<close>, and \<^verbatim>\<open>new Error(message)\<close>, which \<^verbatim>\<open>compile\<close> builds from the
  bundler's report.
\<close>

datatype error = IOError errno string | BundlerError string | Error string

text \<open>
  A promise is settled at most once: \<^verbatim>\<open>resolve\<close> and \<^verbatim>\<open>reject\<close> on a promise that is
  no longer pending do nothing. Neither of them ends the function that calls it.
\<close>

datatype 'a promise = Pending | Fulfilled 'a | Rejected error

fun resolve :: "'a \<Rightarrow> 'a promise \<Rightarrow> 'a promise" where
  "resolve v Pending = Fulfilled v"
| "resolve v p = p"

fun reject :: "error \<Rightarrow> 'a promise \<Rightarrow> 'a promise" where
  "reject e Pending = Rejected e"
| "reject e p = p"

text \<open>\<^verbatim>\<open>if (error) { reject(error); }\<close> with the first argument of a Node callback.\<close>

fun reject_if :: "error option \<Rightarrow> 'a promise \<Rightarrow> 'a promise" where
  "reject_if None p = p"
| "reject_if (Some e) p = reject e p"

section \<open>The machine: environment, disk, bundler\<close>

record stats_options =
  errorDetails :: bool
  warnings :: bool

record stats =
  hasErrors :: bool
  hasWarnings :: bool
  toString :: "stats_options \<Rightarrow> string"

text \<open>
  What \<^verbatim>\<open>compiler.run\<close> hands to its callback: \<^verbatim>\<open>err\<close>, or the statistics together with
  \<^verbatim>\<open>compiler.outputFileSystem.data[BUNDLE_FILE_NAME]\<close> (absent when the bundler emitted
  no such file).
\<close>

datatype run_result = RunErr error | RunStats stats "string option"

text \<open>
  The part of the configuration object of \<^verbatim>\<open>webpack({...})\<close> that depends on the
  invocation. The two paths are kept as the arguments of \<^verbatim>\<open>path.join\<close>; the loaders,
  the output file name and the minimizer are the same on every run.
\<close>

record webpack_config =
  cfg_mode :: string
  cfg_entry :: "string list"
  cfg_configFile :: "string \<times> string"
  cfg_dotenv_path :: "string \<times> string"

datatype event =
  EnvSet string string
| BundlerRun webpack_config
| FileRead string
| FileWrite string string

text \<open>
  The state an invocation runs in: \<^verbatim>\<open>process.env\<close>, \<^verbatim>\<open>process.cwd()\<close>, the files on
  disk with their text (what the \<^verbatim>\<open>'utf8'\<close> encoding reads and writes), the paths whose
  read or write the operating system refuses, each with the error it reports, and the
  effects attempted so far, oldest first.
\<close>

record world =
  process_env :: "string \<rightharpoonup> string"
  cwd :: string
  disk :: "string \<rightharpoonup> string"
  read_refused :: "string \<rightharpoonup> errno"
  write_refused :: "string \<rightharpoonup> errno"
  trace :: "event list"

text \<open>The options object \<^verbatim>\<open>program\<close> of commander, after parsing.\<close>

record program =
  mode :: jsval
  skipCompile :: bool
  env :: string
  tsconfig :: string

definition BUILD_SW_FILE_PATH :: string where
  "BUILD_SW_FILE_PATH = ''build/service-worker.js''"

definition BUNDLE_FILE_NAME :: string where
  "BUNDLE_FILE_NAME = ''bundle.js''"

text \<open>
  \<^verbatim>\<open>fs.readFile(path, 'utf8', callback)\<close>: the pair is the arguments of the callback,
  \<^verbatim>\<open>(error, undefined)\<close> or \<^verbatim>\<open>(null, text)\<close>.
\<close>

definition fs_readFile :: "string \<Rightarrow> world \<Rightarrow> (error option \<times> jsval) \<times> world" where
  "fs_readFile path w =
     (let w1 = w\<lparr>trace := trace w @ [FileRead path]\<rparr>
      in case disk w path of
           None \<Rightarrow> ((Some (IOError ENOENT path), JUndefined), w1)
         | Some text \<Rightarrow>
             (case read_refused w path of
                Some e \<Rightarrow> ((Some (IOError e path), JUndefined), w1)
              | None \<Rightarrow> ((None, JStr text), w1)))"

text \<open>
  \<^verbatim>\<open>fs.writeFile(path, data, 'utf8', callback)\<close>: creates the file or replaces its text;
  data that is not a string is written as its ToString. The result is the argument of
  the callback.
\<close>

definition fs_writeFile :: "string \<Rightarrow> jsval \<Rightarrow> world \<Rightarrow> error option \<times> world" where
  "fs_writeFile path data w =
     (let w1 = w\<lparr>trace := trace w @ [FileWrite path (js_toString data)]\<rparr>
      in case write_refused w path of
           Some e \<Rightarrow> (Some (IOError e path), w1)
         | None \<Rightarrow> (None, w1\<lparr>disk := (disk w1)(path \<mapsto> js_toString data)\<rparr>))"

text \<open>
  \<^verbatim>\<open>path.basename\<close> of Node on POSIX: trailing slashes are dropped, and the result is
  what follows the last remaining slash (the empty string for a path of slashes only).
\<close>

definition basename :: "string \<Rightarrow> string" where
  "basename path =
     rev (takeWhile (\<lambda>c. c \<noteq> CHR ''/'') (dropWhile (\<lambda>c. c = CHR ''/'') (rev path)))"

section \<open>The command line option \<^verbatim>\<open>--mode\<close>\<close>

definition ascii_lower :: "char \<Rightarrow> char" where
  "ascii_lower c =
     (let n = of_char c :: nat in if 65 \<le> n \<and> n \<le> 90 then char_of (n + 32) else c)"

text \<open>\<^verbatim>\<open>/^(dev|build|replace)$/i\<close>\<close>

definition mode_regex :: "string \<Rightarrow> bool" where
  "mode_regex val =
     (let l = map ascii_lower val in l = ''dev'' \<or> l = ''build'' \<or> l = ''replace'')"

text \<open>
  commander turns a regular expression given as the third argument of \<^verbatim>\<open>option\<close> into
  the coercion \<^verbatim>\<open>function (val, def) { var m = regex.exec(val); return m ? m[0] : def; }\<close>.
  The expression is anchored on both sides, so \<^verbatim>\<open>m[0]\<close> is \<^verbatim>\<open>val\<close> as it was typed.
\<close>

definition mode_option :: "string \<Rightarrow> jsval \<Rightarrow> jsval" where
  "mode_option val def = (if mode_regex val then JStr val else def)"

section \<open>The program\<close>

text \<open>The object given to \<^verbatim>\<open>webpack({...})\<close>.\<close>

definition webpack_options :: "program \<Rightarrow> string \<Rightarrow> world \<Rightarrow> webpack_config" where
  "webpack_options prog entry w =
     \<lparr>cfg_mode = (if mode prog = JStr ''dev'' then ''development'' else ''production''),
      cfg_entry = [entry],
      cfg_configFile = (cwd w, tsconfig prog),
      cfg_dotenv_path = (cwd w, env prog)\<rparr>"

text \<open>
  \<^verbatim>\<open>compile\<close>: the bundler is a parameter, a function from the configuration and the
  machine to what \<^verbatim>\<open>compiler.run\<close> reports. It writes to a file system in memory
  only, so the disk is as before. When the bundle is absent, \<^verbatim>\<open>toString\<close> of
  \<^verbatim>\<open>undefined\<close> throws inside the callback and the promise is never settled.
\<close>

definition compile ::
  "program \<Rightarrow> (webpack_config \<Rightarrow> world \<Rightarrow> run_result) \<Rightarrow> string \<Rightarrow> world
     \<Rightarrow> (string \<times> stats) promise \<times> world" where
  "compile prog webpack entry w =
     (let config = webpack_options prog entry w;
          w1 = w\<lparr>trace := trace w @ [BundlerRun config]\<rparr>
      in case webpack config w of
           RunErr err \<Rightarrow> (reject err Pending, w1)
         | RunStats stats bundle \<Rightarrow>
             if hasErrors stats \<or> hasWarnings stats
             then (reject (Error (toString stats \<lparr>errorDetails = True, warnings = True\<rparr>)) Pending, w1)
             else (case bundle of
                     None \<Rightarrow> (Pending, w1)
                   | Some data \<Rightarrow> (resolve (data, stats) Pending, w1)))"

definition read :: "string \<Rightarrow> world \<Rightarrow> jsval promise \<times> world" where
  "read entry w =
     (let ((error, result), w1) = fs_readFile entry w;
          p = reject_if error Pending;
          p = resolve result p
      in (p, w1))"

definition writeFile :: "jsval \<Rightarrow> string \<Rightarrow> world \<Rightarrow> jsval promise \<times> world" where
  "writeFile content file w =
     (let (error, w1) = fs_writeFile file content w;
          p = reject_if error Pending;
          p = resolve JUndefined p
      in (p, w1))"

definition append_sw :: "program \<Rightarrow> jsval \<Rightarrow> string \<Rightarrow> world \<Rightarrow> jsval promise \<times> world" where
  "append_sw prog code file w =
     (if mode prog = JStr ''dev'' then
        (let filename = basename file in writeFile code (''public/'' @ filename) w)
      else if mode prog = JStr ''build'' then
        (let filename = basename file in writeFile code (''build/'' @ filename) w)
      else if mode prog = JStr ''replace'' then
        (let filename = basename file in writeFile code BUILD_SW_FILE_PATH w)
      else
        (let ((error, data), w1) = fs_readFile BUILD_SW_FILE_PATH w;
             p = reject_if error Pending;
             result = js_plus data code;
             (error, w2) = fs_writeFile BUILD_SW_FILE_PATH result w1;
             p = reject_if error p;
             p = resolve JUndefined p
         in (p, w2)))"

text \<open>Lines 23 to 29 of the action: the two environment variables.\<close>

definition set_env :: "string \<Rightarrow> string \<Rightarrow> world \<Rightarrow> world" where
  "set_env name v w =
     w\<lparr>process_env := (process_env w)(name \<mapsto> v), trace := trace w @ [EnvSet name v]\<rparr>"

text \<open>
  \<^verbatim>\<open>p.then(f)\<close> with the world \<^verbatim>\<open>p\<close> was settled in: \<^verbatim>\<open>f\<close> runs only on a fulfilled
  promise; a rejection is passed on and nothing else happens.
\<close>

fun then_run ::
  "'a promise \<times> world \<Rightarrow> ('a \<Rightarrow> world \<Rightarrow> 'b promise \<times> world) \<Rightarrow> 'b promise \<times> world" where
  "then_run (Fulfilled v, w) f = f v w"
| "then_run (Rejected e, w) f = (Rejected e, w)"
| "then_run (Pending, w) f = (Pending, w)"

definition action ::
  "program \<Rightarrow> (webpack_config \<Rightarrow> world \<Rightarrow> run_result) \<Rightarrow> string \<Rightarrow> world
     \<Rightarrow> jsval promise \<times> world" where
  "action prog webpack file w =
     (let w1 = (if mode prog = JStr ''dev''
                then set_env ''NODE_ENV'' ''development'' (set_env ''BABEL_ENV'' ''development'' w)
                else set_env ''NODE_ENV'' ''production'' (set_env ''BABEL_ENV'' ''production'' w))
      in if skipCompile prog
         then then_run (read file w1) (\<lambda>result. append_sw prog result file)
         else then_run (compile prog webpack file w1)
                (\<lambda>(result, stats). append_sw prog (JStr result) file))"

section \<open>A concrete machine\<close>

text \<open>
  A disk with a service worker and an entry file, an invocation without \<^verbatim>\<open>--mode\<close>,
  and a bundler whose report holds one warning and no error.
\<close>

definition example_world :: world where
  "example_world =
     \<lparr>process_env = Map.empty, cwd = ''/app'',
      disk = [''build/service-worker.js'' \<mapsto> ''P;'', ''src/sw.js'' \<mapsto> ''C;''],
      read_refused = Map.empty, write_refused = Map.empty, trace = []\<rparr>"

definition example_program :: program where
  "example_program =
     \<lparr>mode = JUndefined, skipCompile = True, env = ''./.env'', tsconfig = ''./tsconfig.json''\<rparr>"

definition example_stats :: stats where
  "example_stats =
     \<lparr>hasErrors = False, hasWarnings = True,
      toString = (\<lambda>opts. if warnings opts then ''WARNING in ./src/sw.js'' else ''1 warning'')\<rparr>"

definition example_webpack :: "webpack_config \<Rightarrow> world \<Rightarrow> run_result" where
  "example_webpack config w = RunStats example_stats (Some ''B;'')"

section \<open>Effects of the helpers\<close>

text \<open>
  None of the file operations touches \<^verbatim>\<open>process.env\<close>, and each of them only adds to
  the record of effects.
\<close>

lemmas io_defs = fs_readFile_def fs_writeFile_def writeFile_def read_def Let_def

lemmas example_defs = example_world_def example_program_def example_stats_def
  example_webpack_def BUILD_SW_FILE_PATH_def

lemma basename_sw: "basename ''src/sw.js'' = ''sw.js''"
  by (simp add: basename_def)

lemma fs_readFile_world: "snd (fs_readFile path w) = w\<lparr>trace := trace w @ [FileRead path]\<rparr>"
  by (simp add: fs_readFile_def Let_def split: option.splits)

lemma fs_writeFile_env: "process_env (snd (fs_writeFile path data w)) = process_env w"
  by (simp add: fs_writeFile_def Let_def split: option.splits)

lemma fs_writeFile_trace:
  "trace (snd (fs_writeFile path data w)) = trace w @ [FileWrite path (js_toString data)]"
  by (simp add: fs_writeFile_def Let_def split: option.splits)

lemma read_world: "snd (read entry w) = w\<lparr>trace := trace w @ [FileRead entry]\<rparr>"
  by (simp add: read_def Let_def split_beta fs_readFile_world)

lemma writeFile_env: "process_env (snd (writeFile content file w)) = process_env w"
  by (simp add: writeFile_def Let_def split_beta fs_writeFile_env)

lemma writeFile_trace:
  "trace (snd (writeFile content file w)) = trace w @ [FileWrite file (js_toString content)]"
  by (simp add: writeFile_def Let_def split_beta fs_writeFile_trace)

lemma compile_world:
  "snd (compile prog webpack entry w) =
     w\<lparr>trace := trace w @ [BundlerRun (webpack_options prog entry w)]\<rparr>"
  by (simp add: compile_def Let_def split: run_result.splits option.splits)

lemma append_sw_env: "process_env (snd (append_sw prog code file w)) = process_env w"
  by (simp add: append_sw_def Let_def split_beta writeFile_env fs_writeFile_env fs_readFile_world)

lemma append_sw_trace: "\<exists>es. trace (snd (append_sw prog code file w)) = trace w @ es"
  by (simp add: append_sw_def Let_def split_beta writeFile_trace fs_writeFile_trace
        fs_readFile_world)

lemma then_run_append_env:
  "process_env (snd (then_run (p, w) (\<lambda>v. append_sw prog (g v) file))) = process_env w"
  by (cases p) (simp_all add: append_sw_env)

lemma then_run_append_trace:
  "\<exists>es. trace (snd (then_run (p, w) (\<lambda>v. append_sw prog (g v) file))) = trace w @ es"
  by (cases p) (simp_all add: append_sw_trace)

lemma action_env_trace:
  "let v = (if mode prog = JStr ''dev'' then ''development'' else ''production'');
       w' = snd (action prog webpack file w)
   in process_env w' = (process_env w)(''BABEL_ENV'' \<mapsto> v, ''NODE_ENV'' \<mapsto> v) \<and>
      (\<exists>rest. trace w' = trace w @ [EnvSet ''BABEL_ENV'' v, EnvSet ''NODE_ENV'' v] @ rest)"
proof -
  define v where "v = (if mode prog = JStr ''dev'' then ''development'' else ''production'')"
  define w1 where "w1 = set_env ''NODE_ENV'' v (set_env ''BABEL_ENV'' v w)"
  define w' where "w' = snd (action prog webpack file w)"
  have env1: "process_env w1 = (process_env w)(''BABEL_ENV'' \<mapsto> v, ''NODE_ENV'' \<mapsto> v)"
    by (simp add: w1_def set_env_def)
  have tr1: "trace w1 = trace w @ [EnvSet ''BABEL_ENV'' v, EnvSet ''NODE_ENV'' v]"
    by (simp add: w1_def set_env_def)
  have act: "w' =
      (if skipCompile prog
       then snd (then_run (read file w1) (\<lambda>result. append_sw prog result file))
       else snd (then_run (compile prog webpack file w1)
                   (\<lambda>(result, stats). append_sw prog (JStr result) file)))"
    by (simp add: w'_def action_def w1_def v_def)
  have "process_env w' = process_env w1 \<and> (\<exists>es. trace w' = trace w1 @ es)"
  proof (cases "skipCompile prog")
    case True
    obtain p where r: "read file w1 = (p, w1\<lparr>trace := trace w1 @ [FileRead file]\<rparr>)"
      using read_world [of "file" w1] by (cases "read file w1") simp
    from then_run_append_env [of p _ prog "\<lambda>x. x" "file"]
         then_run_append_trace
           [of p "w1\<lparr>trace := trace w1 @ [FileRead file]\<rparr>" prog "\<lambda>x. x" "file"]
    show ?thesis using True by (auto simp: act r)
  next
    case False
    obtain p where r: "compile prog webpack file w1 =
        (p, w1\<lparr>trace := trace w1 @ [BundlerRun (webpack_options prog file w1)]\<rparr>)"
      using compile_world [of prog webpack "file" w1]
      by (cases "compile prog webpack file w1") simp
    have eq: "(\<lambda>(result, stats). append_sw prog (JStr result) file) =
              (\<lambda>v. append_sw prog (JStr (fst v)) file)"
      by (simp add: fun_eq_iff split_beta)
    from then_run_append_env [of p _ prog "\<lambda>v. JStr (fst v)" "file"]
         then_run_append_trace
           [of p "w1\<lparr>trace := trace w1 @ [BundlerRun (webpack_options prog file w1)]\<rparr>"
               prog "\<lambda>v. JStr (fst v)" "file"]
    show ?thesis using False by (auto simp: act r eq)
  qed
  with env1 tr1 show ?thesis
    unfolding Let_def v_def [symmetric] w'_def [symmetric] by auto
qed

lemma mode_regex_DEV: "mode_regex ''DEV''"
  by code_simp

lemma mode_regex_Replace: "mode_regex ''Replace''"
  by code_simp

section \<open>The output router\<close>

text \<open>
  C1. On the default branch (the mode is none of the three literals) the only file
  touched is \<^verbatim>\<open>build/service-worker.js\<close>, whether its read succeeds or not: the
  effects are one read of that path followed by one write to that path, and no other
  file on disk changes. When the read succeeds, the text handed to the write is the
  text read followed by the new content, nothing in between. When the write succeeds
  too, the promise is fulfilled and that text is what the file holds.
\<close>

theorem append_default_concatenates:
  assumes "mode prog \<noteq> JStr ''dev''" and "mode prog \<noteq> JStr ''build''"
    and "mode prog \<noteq> JStr ''replace''"
  shows "(\<exists>t. trace (snd (append_sw prog (JStr new) file w)) =
            trace w @ [FileRead BUILD_SW_FILE_PATH, FileWrite BUILD_SW_FILE_PATH t]) \<and>
         (\<forall>p. p \<noteq> BUILD_SW_FILE_PATH \<longrightarrow>
            disk (snd (append_sw prog (JStr new) file w)) p = disk w p) \<and>
         (disk w BUILD_SW_FILE_PATH = Some old \<and> read_refused w BUILD_SW_FILE_PATH = None \<longrightarrow>
            trace (snd (append_sw prog (JStr new) file w)) =
              trace w @ [FileRead BUILD_SW_FILE_PATH, FileWrite BUILD_SW_FILE_PATH (old @ new)] \<and>
            (write_refused w BUILD_SW_FILE_PATH = None \<longrightarrow>
               fst (append_sw prog (JStr new) file w) = Fulfilled JUndefined \<and>
               disk (snd (append_sw prog (JStr new) file w)) =
                 (disk w)(BUILD_SW_FILE_PATH \<mapsto> old @ new)))"
proof -
  have dest: "\<exists>t. trace (snd (append_sw prog (JStr new) file w)) =
      trace w @ [FileRead BUILD_SW_FILE_PATH, FileWrite BUILD_SW_FILE_PATH t]"
    using assms
    by (simp add: append_sw_def Let_def split_beta fs_writeFile_trace fs_readFile_world)
  have others: "\<forall>p. p \<noteq> BUILD_SW_FILE_PATH \<longrightarrow>
      disk (snd (append_sw prog (JStr new) file w)) p = disk w p"
    using assms by (simp add: append_sw_def io_defs split: option.splits)
  have content: "disk w BUILD_SW_FILE_PATH = Some old \<and> read_refused w BUILD_SW_FILE_PATH = None \<longrightarrow>
      trace (snd (append_sw prog (JStr new) file w)) =
        trace w @ [FileRead BUILD_SW_FILE_PATH, FileWrite BUILD_SW_FILE_PATH (old @ new)] \<and>
      (write_refused w BUILD_SW_FILE_PATH = None \<longrightarrow>
         fst (append_sw prog (JStr new) file w) = Fulfilled JUndefined \<and>
         disk (snd (append_sw prog (JStr new) file w)) =
           (disk w)(BUILD_SW_FILE_PATH \<mapsto> old @ new))"
    using assms by (simp add: append_sw_def io_defs split: option.splits)
  from dest others content show ?thesis by blast
qed

theorem append_default_concatenates_witness:
  "mode example_program \<noteq> JStr ''dev'' \<and> mode example_program \<noteq> JStr ''build'' \<and>
   mode example_program \<noteq> JStr ''replace'' \<and>
   disk example_world BUILD_SW_FILE_PATH = Some ''P;'' \<and>
   read_refused example_world BUILD_SW_FILE_PATH = None \<and>
   write_refused example_world BUILD_SW_FILE_PATH = None \<and>
   ''src/sw.js'' \<noteq> BUILD_SW_FILE_PATH \<and>
   trace (snd (append_sw example_program (JStr ''C;'') ''src/sw.js'' example_world)) =
     [FileRead ''build/service-worker.js'', FileWrite ''build/service-worker.js'' ''P;C;''] \<and>
   fst (append_sw example_program (JStr ''C;'') ''src/sw.js'' example_world) = Fulfilled JUndefined \<and>
   disk (snd (append_sw example_program (JStr ''C;'') ''src/sw.js'' example_world))
     ''build/service-worker.js'' = Some ''P;C;'' \<and>
   disk (snd (append_sw example_program (JStr ''C;'') ''src/sw.js'' example_world))
     ''src/sw.js'' = Some ''C;''"
proof -
  have h: "mode example_program \<noteq> JStr ''dev''" "mode example_program \<noteq> JStr ''build''"
    "mode example_program \<noteq> JStr ''replace''"
    by (simp_all add: example_defs)
  have r: "disk example_world BUILD_SW_FILE_PATH = Some ''P;''"
    "read_refused example_world BUILD_SW_FILE_PATH = None"
    "write_refused example_world BUILD_SW_FILE_PATH = None"
    "''src/sw.js'' \<noteq> BUILD_SW_FILE_PATH"
    "disk example_world ''src/sw.js'' = Some ''C;''" "trace example_world = []"
    by (simp_all add: example_defs)
  from append_default_concatenates [OF h, of "''C;''" "''src/sw.js''" example_world "''P;''"] r h
  show ?thesis by (simp add: BUILD_SW_FILE_PATH_def)
qed

text \<open>
  C2. With mode \<^verbatim>\<open>dev\<close> the only effect is one write of the content, as given, to
  \<^verbatim>\<open>public/\<close> followed by the base name of the entry file, and with mode \<^verbatim>\<open>build\<close> to
  \<^verbatim>\<open>build/\<close> followed by that base name. Nothing is read first: whatever the file held
  before is replaced.
\<close>

theorem append_dev_build_overwrites:
  "(mode prog = JStr ''dev'' \<longrightarrow>
      trace (snd (append_sw prog (JStr content) file w)) =
        trace w @ [FileWrite (''public/'' @ basename file) content] \<and>
      (write_refused w (''public/'' @ basename file) = None \<longrightarrow>
         fst (append_sw prog (JStr content) file w) = Fulfilled JUndefined \<and>
         disk (snd (append_sw prog (JStr content) file w)) =
           (disk w)(''public/'' @ basename file \<mapsto> content))) \<and>
   (mode prog = JStr ''build'' \<longrightarrow>
      trace (snd (append_sw prog (JStr content) file w)) =
        trace w @ [FileWrite (''build/'' @ basename file) content] \<and>
      (write_refused w (''build/'' @ basename file) = None \<longrightarrow>
         fst (append_sw prog (JStr content) file w) = Fulfilled JUndefined \<and>
         disk (snd (append_sw prog (JStr content) file w)) =
           (disk w)(''build/'' @ basename file \<mapsto> content)))"
  by (simp add: append_sw_def io_defs split: option.splits)

theorem append_dev_build_overwrites_witness:
  "mode (example_program\<lparr>mode := JStr ''dev''\<rparr>) = JStr ''dev'' \<and>
   write_refused example_world (''public/'' @ basename ''src/sw.js'') = None \<and>
   disk (snd (append_sw (example_program\<lparr>mode := JStr ''dev''\<rparr>) (JStr ''C;'') ''src/sw.js''
     example_world)) ''public/sw.js'' = Some ''C;'' \<and>
   mode (example_program\<lparr>mode := JStr ''build''\<rparr>) = JStr ''build'' \<and>
   write_refused example_world (''build/'' @ basename ''src/sw.js'') = None \<and>
   disk (snd (append_sw (example_program\<lparr>mode := JStr ''build''\<rparr>) (JStr ''C;'') ''src/sw.js''
     example_world)) ''build/sw.js'' = Some ''C;'' \<and>
   disk (snd (append_sw (example_program\<lparr>mode := JStr ''build''\<rparr>) (JStr ''C;'') ''src/sw.js''
     example_world)) ''build/service-worker.js'' = Some ''P;''"
proof -
  have u: "write_refused example_world = Map.empty"
    "disk example_world ''build/service-worker.js'' = Some ''P;''"
    by (simp_all add: example_defs)
  from append_dev_build_overwrites
         [of "example_program\<lparr>mode := JStr ''dev''\<rparr>" "''C;''" "''src/sw.js''" example_world]
       append_dev_build_overwrites
         [of "example_program\<lparr>mode := JStr ''build''\<rparr>" "''C;''" "''src/sw.js''" example_world]
       u
  show ?thesis by (simp add: basename_sw)
qed

text \<open>
  C3. With mode \<^verbatim>\<open>replace\<close> the only effect is one write of the content to
  \<^verbatim>\<open>build/service-worker.js\<close>, whatever the entry file is called; the text the file held
  before is not part of the result.
\<close>

theorem append_replace_overwrites:
  assumes "mode prog = JStr ''replace''"
  shows "trace (snd (append_sw prog (JStr content) file w)) =
           trace w @ [FileWrite BUILD_SW_FILE_PATH content] \<and>
         (write_refused w BUILD_SW_FILE_PATH = None \<longrightarrow>
            fst (append_sw prog (JStr content) file w) = Fulfilled JUndefined \<and>
            disk (snd (append_sw prog (JStr content) file w)) =
              (disk w)(BUILD_SW_FILE_PATH \<mapsto> content))"
  using assms by (simp add: append_sw_def io_defs split: option.splits)

theorem append_replace_overwrites_witness:
  "mode (example_program\<lparr>mode := JStr ''replace''\<rparr>) = JStr ''replace'' \<and>
   write_refused example_world BUILD_SW_FILE_PATH = None \<and>
   disk example_world BUILD_SW_FILE_PATH = Some ''P;'' \<and>
   trace (snd (append_sw (example_program\<lparr>mode := JStr ''replace''\<rparr>) (JStr ''C;'') ''src/sw.js''
     example_world)) = [FileWrite ''build/service-worker.js'' ''C;''] \<and>
   disk (snd (append_sw (example_program\<lparr>mode := JStr ''replace''\<rparr>) (JStr ''C;'') ''src/sw.js''
     example_world)) ''build/service-worker.js'' = Some ''C;''"
proof -
  have m: "mode (example_program\<lparr>mode := JStr ''replace''\<rparr>) = JStr ''replace''"
    by simp
  have u: "write_refused example_world BUILD_SW_FILE_PATH = None"
    "disk example_world BUILD_SW_FILE_PATH = Some ''P;''" "trace example_world = []"
    by (simp_all add: example_defs)
  from append_replace_overwrites [OF m, of "''C;''" "''src/sw.js''" example_world] u m
  show ?thesis by (simp add: BUILD_SW_FILE_PATH_def)
qed

text \<open>
  C7. Two runs of the default branch with the same content \<open>C\<close> over a service worker
  that holds \<open>P\<close> leave \<open>P\<close> followed by two copies of \<open>C\<close>.
\<close>

theorem append_default_twice_duplicates:
  assumes "mode prog \<noteq> JStr ''dev''" and "mode prog \<noteq> JStr ''build''"
    and "mode prog \<noteq> JStr ''replace''"
    and "disk w BUILD_SW_FILE_PATH = Some P" and "read_refused w BUILD_SW_FILE_PATH = None"
    and "write_refused w BUILD_SW_FILE_PATH = None"
  shows "disk (snd (append_sw prog (JStr C) file w)) BUILD_SW_FILE_PATH = Some (P @ C) \<and>
         disk (snd (append_sw prog (JStr C) file (snd (append_sw prog (JStr C) file w))))
           BUILD_SW_FILE_PATH = Some (P @ C @ C)"
  using assms by (simp add: append_sw_def io_defs)

theorem append_default_twice_duplicates_witness:
  "mode example_program \<noteq> JStr ''dev'' \<and> mode example_program \<noteq> JStr ''build'' \<and>
   mode example_program \<noteq> JStr ''replace'' \<and>
   disk example_world BUILD_SW_FILE_PATH = Some ''P;'' \<and>
   read_refused example_world BUILD_SW_FILE_PATH = None \<and>
   write_refused example_world BUILD_SW_FILE_PATH = None \<and>
   disk (snd (append_sw example_program (JStr ''C;'') ''src/sw.js''
     (snd (append_sw example_program (JStr ''C;'') ''src/sw.js'' example_world))))
     ''build/service-worker.js'' = Some ''P;C;C;''"
proof -
  have h: "mode example_program \<noteq> JStr ''dev''" "mode example_program \<noteq> JStr ''build''"
    "mode example_program \<noteq> JStr ''replace''"
    "disk example_world BUILD_SW_FILE_PATH = Some ''P;''"
    "read_refused example_world BUILD_SW_FILE_PATH = None"
    "write_refused example_world BUILD_SW_FILE_PATH = None"
    by (simp_all add: example_defs)
  from append_default_twice_duplicates [OF h, of "''C;''" "''src/sw.js''"] h show ?thesis
    by (simp add: BUILD_SW_FILE_PATH_def)
qed

text \<open>
  C5. What the default branch does when \<^verbatim>\<open>build/service-worker.js\<close> does not exist:
  the promise is rejected with the error of the read, and, there being no
  \<^verbatim>\<open>return\<close> after \<^verbatim>\<open>reject(error)\<close>, the callback goes on to concatenate
  \<^verbatim>\<open>undefined\<close> with the content and to write the result, which creates the file with
  the text \<^verbatim>\<open>undefined\<close> in front of the content.
\<close>

theorem append_default_failed_read_still_writes:
  "disk (example_world\<lparr>disk := [''src/sw.js'' \<mapsto> ''C;'']\<rparr>) BUILD_SW_FILE_PATH = None \<and>
   fst (append_sw example_program (JStr ''C;'') ''src/sw.js''
     (example_world\<lparr>disk := [''src/sw.js'' \<mapsto> ''C;'']\<rparr>)) =
     Rejected (IOError ENOENT ''build/service-worker.js'') \<and>
   trace (snd (append_sw example_program (JStr ''C;'') ''src/sw.js''
     (example_world\<lparr>disk := [''src/sw.js'' \<mapsto> ''C;'']\<rparr>))) =
     [FileRead ''build/service-worker.js'', FileWrite ''build/service-worker.js'' ''undefinedC;''] \<and>
   disk (snd (append_sw example_program (JStr ''C;'') ''src/sw.js''
     (example_world\<lparr>disk := [''src/sw.js'' \<mapsto> ''C;'']\<rparr>))) ''build/service-worker.js'' =
     Some ''undefinedC;''"
  by (simp add: append_sw_def io_defs example_defs)

section \<open>The bundler adapter\<close>

text \<open>
  C4. When the bundler hands over statistics that report a warning, with or without
  errors, \<^verbatim>\<open>compile\<close> rejects, and the message of the error is what \<^verbatim>\<open>toString\<close> of
  the statistics returns for the options \<^verbatim>\<open>errorDetails: true, warnings: true\<close>.
\<close>

theorem compile_warnings_reject:
  assumes "webpack (webpack_options prog entry w) w = RunStats st bundle"
    and "hasWarnings st"
  shows "fst (compile prog webpack entry w) =
           Rejected (Error (toString st \<lparr>errorDetails = True, warnings = True\<rparr>))"
  using assms by (simp add: compile_def Let_def)

theorem compile_warnings_reject_witness:
  "example_webpack (webpack_options example_program ''src/sw.js'' example_world) example_world =
     RunStats example_stats (Some ''B;'') \<and>
   hasWarnings example_stats \<and> \<not> hasErrors example_stats \<and>
   fst (compile example_program example_webpack ''src/sw.js'' example_world) =
     Rejected (Error ''WARNING in ./src/sw.js'')"
proof -
  have h: "example_webpack (webpack_options example_program ''src/sw.js'' example_world)
             example_world = RunStats example_stats (Some ''B;'')"
    "hasWarnings example_stats"
    by (simp_all add: example_webpack_def example_stats_def)
  have e: "\<not> hasErrors example_stats"
    "toString example_stats \<lparr>errorDetails = True, warnings = True\<rparr> = ''WARNING in ./src/sw.js''"
    by (simp_all add: example_stats_def)
  from compile_warnings_reject
         [of example_webpack example_program "''src/sw.js''" example_world example_stats
             "Some ''B;''", OF h]
       h e
  show ?thesis by simp
qed

section \<open>The action\<close>

text \<open>
  C6. With \<^verbatim>\<open>--skip-compile\<close> and an entry file that does not exist, \<^verbatim>\<open>read\<close>
  rejects with the error of the file system, the handler that would call
  \<^verbatim>\<open>append\<close> never runs, and the disk is as it was: after the two assignments to the
  environment, the read of the entry file is the only effect.
\<close>

theorem read_missing_entry_no_write:
  assumes "skipCompile prog" and "disk w file = None"
  shows "let v = (if mode prog = JStr ''dev'' then ''development'' else ''production'')
         in fst (read file w) = Rejected (IOError ENOENT file) \<and>
            fst (action prog webpack file w) = Rejected (IOError ENOENT file) \<and>
            disk (snd (action prog webpack file w)) = disk w \<and>
            trace (snd (action prog webpack file w)) =
              trace w @ [EnvSet ''BABEL_ENV'' v, EnvSet ''NODE_ENV'' v, FileRead file]"
  using assms by (simp add: action_def set_env_def io_defs)

theorem read_missing_entry_no_write_witness:
  "skipCompile example_program \<and> disk example_world ''src/nope.js'' = None \<and>
   fst (action example_program example_webpack ''src/nope.js'' example_world) =
     Rejected (IOError ENOENT ''src/nope.js'') \<and>
   disk (snd (action example_program example_webpack ''src/nope.js'' example_world)) =
     disk example_world \<and>
   trace (snd (action example_program example_webpack ''src/nope.js'' example_world)) =
     [EnvSet ''BABEL_ENV'' ''production'', EnvSet ''NODE_ENV'' ''production'',
      FileRead ''src/nope.js'']"
proof -
  have h: "skipCompile example_program" "disk example_world ''src/nope.js'' = None"
    by (simp_all add: example_defs)
  have m: "mode example_program = JUndefined" "trace example_world = []"
    by (simp_all add: example_defs)
  from read_missing_entry_no_write [OF h, of example_webpack] h m show ?thesis
    by (simp add: Let_def)
qed

text \<open>
  C8. With \<^verbatim>\<open>--skip-compile\<close> and mode \<^verbatim>\<open>dev\<close>, a readable entry file with text
  \<open>C\<close> ends up, unchanged, as the text of \<^verbatim>\<open>public/\<close> followed by its base name.
\<close>

theorem read_then_dev_roundtrip:
  assumes "mode prog = JStr ''dev''" and "skipCompile prog"
    and "disk w file = Some C" and "read_refused w file = None"
    and "write_refused w (''public/'' @ basename file) = None"
  shows "fst (read file w) = Fulfilled (JStr C) \<and>
         fst (action prog webpack file w) = Fulfilled JUndefined \<and>
         disk (snd (action prog webpack file w)) = (disk w)(''public/'' @ basename file \<mapsto> C)"
  using assms by (simp add: action_def set_env_def append_sw_def io_defs)

theorem read_then_dev_roundtrip_witness:
  "mode (example_program\<lparr>mode := JStr ''dev''\<rparr>) = JStr ''dev'' \<and>
   skipCompile (example_program\<lparr>mode := JStr ''dev''\<rparr>) \<and>
   disk example_world ''src/sw.js'' = Some ''C;'' \<and>
   read_refused example_world ''src/sw.js'' = None \<and>
   write_refused example_world (''public/'' @ basename ''src/sw.js'') = None \<and>
   disk (snd (action (example_program\<lparr>mode := JStr ''dev''\<rparr>) example_webpack ''src/sw.js''
     example_world)) ''public/sw.js'' = Some ''C;''"
proof -
  have h: "mode (example_program\<lparr>mode := JStr ''dev''\<rparr>) = JStr ''dev''"
    "skipCompile (example_program\<lparr>mode := JStr ''dev''\<rparr>)"
    "disk example_world ''src/sw.js'' = Some ''C;''"
    "read_refused example_world ''src/sw.js'' = None"
    "write_refused example_world (''public/'' @ basename ''src/sw.js'') = None"
    by (simp_all add: example_defs)
  from read_then_dev_roundtrip [OF h, of example_webpack] h show ?thesis
    by (simp add: basename_sw)
qed

text \<open>
  C9. Every invocation sets \<^verbatim>\<open>BABEL_ENV\<close> and \<^verbatim>\<open>NODE_ENV\<close>, to
  \<^verbatim>\<open>development\<close> when the mode is the string \<^verbatim>\<open>dev\<close> and to \<^verbatim>\<open>production\<close> for
  any other value, and these two assignments are the first effects of the invocation:
  the bundler run, the reads and the writes all come after them.
\<close>

theorem action_sets_env_first:
  "let v = (if mode prog = JStr ''dev'' then ''development'' else ''production'');
       w' = snd (action prog webpack file w)
   in process_env w' ''BABEL_ENV'' = Some v \<and> process_env w' ''NODE_ENV'' = Some v \<and>
      (\<exists>rest. trace w' = trace w @ [EnvSet ''BABEL_ENV'' v, EnvSet ''NODE_ENV'' v] @ rest)"
  using action_env_trace [of prog webpack "file" w] by (simp add: Let_def)

theorem action_sets_env_first_witness:
  "process_env (snd (action example_program example_webpack ''src/sw.js'' example_world))
     ''BABEL_ENV'' = Some ''production'' \<and>
   process_env (snd (action example_program example_webpack ''src/sw.js'' example_world))
     ''NODE_ENV'' = Some ''production'' \<and>
   process_env (snd (action (example_program\<lparr>mode := JStr ''dev''\<rparr>) example_webpack ''src/sw.js''
     example_world)) ''NODE_ENV'' = Some ''development'' \<and>
   process_env (snd (action (example_program\<lparr>mode := JStr ''dev''\<rparr>) example_webpack ''src/sw.js''
     example_world)) ''BABEL_ENV'' = Some ''development''"
  using action_sets_env_first [of example_program example_webpack "''src/sw.js''" example_world]
    action_sets_env_first
      [of "example_program\<lparr>mode := JStr ''dev''\<rparr>" example_webpack "''src/sw.js''" example_world]
  by (simp add: Let_def example_program_def)

text \<open>
  C10. The option \<^verbatim>\<open>--mode\<close> accepts its three values in any mix of upper and lower
  case and stores the value as typed, while \<^verbatim>\<open>append\<close> and the action compare with
  \<^verbatim>\<open>===\<close> to the lower-case literals. An accepted value that is not one of the
  literals is therefore routed exactly as an unset mode is, and sets \<^verbatim>\<open>production\<close>.
\<close>

theorem mode_compared_case_sensitively:
  assumes "mode_regex val" and "val \<noteq> ''dev''" and "val \<noteq> ''build''"
    and "val \<noteq> ''replace''" and "mode prog = mode_option val def"
  shows "mode prog = JStr val \<and>
         append_sw prog code file w = append_sw (prog\<lparr>mode := JUndefined\<rparr>) code file w \<and>
         process_env (snd (action prog webpack file w)) ''BABEL_ENV'' = Some ''production'' \<and>
         process_env (snd (action prog webpack file w)) ''NODE_ENV'' = Some ''production''"
proof -
  from assms(1,5) have m: "mode prog = JStr val"
    by (simp add: mode_option_def)
  with assms(2-4) have "append_sw prog code file w = append_sw (prog\<lparr>mode := JUndefined\<rparr>) code file w"
    by (simp add: append_sw_def)
  moreover from m assms(2) action_env_trace [of prog webpack "file" w]
  have "process_env (snd (action prog webpack file w)) ''BABEL_ENV'' = Some ''production''"
    "process_env (snd (action prog webpack file w)) ''NODE_ENV'' = Some ''production''"
    by (simp_all add: Let_def)
  ultimately show ?thesis using m by simp
qed

theorem mode_compared_case_sensitively_witness:
  "mode_regex ''DEV'' \<and> mode_regex ''Replace'' \<and>
   mode (example_program\<lparr>mode := mode_option ''DEV'' JUndefined\<rparr>) = JStr ''DEV'' \<and>
   trace (snd (append_sw (example_program\<lparr>mode := mode_option ''DEV'' JUndefined\<rparr>)
     (JStr ''C;'') ''src/sw.js'' example_world)) =
     [FileRead ''build/service-worker.js'', FileWrite ''build/service-worker.js'' ''P;C;''] \<and>
   trace (snd (append_sw (example_program\<lparr>mode := mode_option ''Replace'' JUndefined\<rparr>)
     (JStr ''C;'') ''src/sw.js'' example_world)) =
     [FileRead ''build/service-worker.js'', FileWrite ''build/service-worker.js'' ''P;C;''] \<and>
   process_env (snd (action (example_program\<lparr>mode := mode_option ''DEV'' JUndefined\<rparr>)
     example_webpack ''src/sw.js'' example_world)) ''NODE_ENV'' = Some ''production'' \<and>
   process_env (snd (action (example_program\<lparr>mode := mode_option ''Replace'' JUndefined\<rparr>)
     example_webpack ''src/sw.js'' example_world)) ''BABEL_ENV'' = Some ''production''"
proof -
  define pd where "pd = example_program\<lparr>mode := mode_option ''DEV'' JUndefined\<rparr>"
  define pr where "pr = example_program\<lparr>mode := mode_option ''Replace'' JUndefined\<rparr>"
  have d: "mode pd = mode_option ''DEV'' JUndefined"
    and r: "mode pr = mode_option ''Replace'' JUndefined"
    by (simp_all add: pd_def pr_def)
  have ne: "''DEV'' \<noteq> ''dev''" "''DEV'' \<noteq> ''build''" "''DEV'' \<noteq> ''replace''"
    "''Replace'' \<noteq> ''dev''" "''Replace'' \<noteq> ''build''" "''Replace'' \<noteq> ''replace''"
    by simp_all
  have u: "pd\<lparr>mode := JUndefined\<rparr> = example_program" "pr\<lparr>mode := JUndefined\<rparr> = example_program"
    by (simp_all add: pd_def pr_def example_program_def)
  have t: "trace (snd (append_sw example_program (JStr ''C;'') ''src/sw.js'' example_world)) =
           [FileRead ''build/service-worker.js'', FileWrite ''build/service-worker.js'' ''P;C;'']"
    by (simp add: append_sw_def io_defs example_defs)
  note D = mode_compared_case_sensitively
             [OF mode_regex_DEV ne(1-3) d, of "JStr ''C;''" "''src/sw.js''" example_world
                example_webpack]
  note R = mode_compared_case_sensitively
             [OF mode_regex_Replace ne(4-6) r, of "JStr ''C;''" "''src/sw.js''" example_world
                example_webpack]
  from D have "mode pd = JStr ''DEV''"
    "trace (snd (append_sw pd (JStr ''C;'') ''src/sw.js'' example_world)) =
       [FileRead ''build/service-worker.js'', FileWrite ''build/service-worker.js'' ''P;C;'']"
    "process_env (snd (action pd example_webpack ''src/sw.js'' example_world)) ''NODE_ENV'' =
       Some ''production''"
    by (simp_all only: u t)
  moreover from R have
    "trace (snd (append_sw pr (JStr ''C;'') ''src/sw.js'' example_world)) =
       [FileRead ''build/service-worker.js'', FileWrite ''build/service-worker.js'' ''P;C;'']"
    "process_env (snd (action pr example_webpack ''src/sw.js'' example_world)) ''BABEL_ENV'' =
       Some ''production''"
    by (simp_all only: u t)
  ultimately show ?thesis
    using mode_regex_DEV mode_regex_Replace unfolding pd_def pr_def by blast
qed

end
